theory Spec2Isabelle
  imports Main "HOL-Library.AList"
begin

section \<open>Python values\<close>

text \<open>
  The module works on the values that the argument parser, the JSON codec and the provider
  SDK hand to it: \<open>None\<close>, booleans, integers, strings, lists and dictionaries with
  string keys. A dictionary is an association list in insertion order whose keys are
  distinct; a lookup reads the first entry of a key. Values are trees: no object is shared
  between two places of a value, as is the case for anything decoded from JSON or YAML
  text. Floating-point numbers are not part of the model.
\<close>

datatype pyval =
    PNone
  | PBool bool
  | PInt int
  | PStr string
  | PList "pyval list"
  | PDict "(string \<times> pyval) list"

type_synonym pydict = "(string \<times> pyval) list"

text \<open>
  The exceptions that can leave \<open>main\<close>. \<open>KeyError\<close> carries the missing key,
  \<open>SerializeError\<close> the text of whatever \<open>json.dumps\<close> raised, \<open>BotoClientError\<close>
  the code and message of a \<open>botocore.exceptions.ClientError\<close>, and
  \<open>OtherException\<close> stands for any other exception raised inside the SDK.
\<close>

datatype error =
    KeyError string
  | TypeError
  | ValueError
  | SerializeError string
  | BotoClientError string string
  | OtherException string

text \<open>
  Python's \<open>==\<close> on these values. \<open>bool\<close> is a subclass of \<open>int\<close>, so
  \<open>True == 1\<close>; lists are equal when they have the same length and equal elements in
  order; dictionaries are equal when they have the same keys and equal values under each
  key, whatever the insertion order. Values of different kinds are unequal.
\<close>

function py_eq :: "pyval \<Rightarrow> pyval \<Rightarrow> bool" where
  "py_eq PNone y = (case y of PNone \<Rightarrow> True | _ \<Rightarrow> False)"
| "py_eq (PBool a) y =
     (case y of PBool b \<Rightarrow> a = b | PInt j \<Rightarrow> (if a then 1 else 0) = j | _ \<Rightarrow> False)"
| "py_eq (PInt i) y =
     (case y of PInt j \<Rightarrow> i = j | PBool b \<Rightarrow> i = (if b then 1 else 0) | _ \<Rightarrow> False)"
| "py_eq (PStr s) y = (case y of PStr t \<Rightarrow> s = t | _ \<Rightarrow> False)"
| "py_eq (PList xs) y = (case y of PList ys \<Rightarrow> list_all2 py_eq xs ys | _ \<Rightarrow> False)"
| "py_eq (PDict a) y =
     (case y of
        PDict b \<Rightarrow>
          list_all (\<lambda>(k, v). map_of a k \<noteq> Some v \<or>
                     (case map_of b k of None \<Rightarrow> False | Some w \<Rightarrow> py_eq v w)) a
          \<and> list_all (\<lambda>(k, w). map_of a k \<noteq> None) b
      | _ \<Rightarrow> False)"
  by pat_completeness auto
termination
proof (relation "measure (\<lambda>(x, y). size x)", goal_cases)
  case 1
  show ?case by simp
next
  case (2 xs y ys x z)
  have "u \<in> set us \<Longrightarrow> size u < Suc (size_list size us)" for u :: pyval and us
    by (induction us) auto
  with 2 show ?case by simp
next
  case (3 a y b kv k v w)
  have "(j, u) \<in> set d \<Longrightarrow> size u < Suc (size_list (size_prod (\<lambda>_. 0) size) d)"
    for j :: string and u :: pyval and d
    by (induction d) auto
  with 3 show ?case by auto
qed

text \<open>Truth value of a value in a condition (\<open>if x:\<close>, \<open>x or y\<close>).\<close>

fun py_truthy :: "pyval \<Rightarrow> bool" where
  "py_truthy PNone = False"
| "py_truthy (PBool b) = b"
| "py_truthy (PInt i) = (i \<noteq> 0)"
| "py_truthy (PStr s) = (s \<noteq> [])"
| "py_truthy (PList xs) = (xs \<noteq> [])"
| "py_truthy (PDict d) = (d \<noteq> [])"

text \<open>\<open>t in s\<close> on strings: \<open>t\<close> occurs in \<open>s\<close> as a contiguous piece.\<close>

fun starts_with :: "string \<Rightarrow> string \<Rightarrow> bool" where
  "starts_with [] s = True"
| "starts_with (c # t) [] = False"
| "starts_with (c # t) (d # s) = (c = d \<and> starts_with t s)"

fun is_substring :: "string \<Rightarrow> string \<Rightarrow> bool" where
  "is_substring t [] = (t = [])"
| "is_substring t (d # s) = (starts_with t (d # s) \<or> is_substring t s)"

text \<open>
  \<open>key in x\<close> for a string key: key membership on a dictionary, element membership on a
  list, substring test on a string, and a \<open>TypeError\<close> on anything else.
\<close>

fun py_contains :: "pyval \<Rightarrow> string \<Rightarrow> error + bool" where
  "py_contains (PDict d) k = Inr (map_of d k \<noteq> None)"
| "py_contains (PList xs) k = Inr (list_ex (\<lambda>x. py_eq x (PStr k)) xs)"
| "py_contains (PStr s) k = Inr (is_substring k s)"
| "py_contains x k = Inl TypeError"

text \<open>
  \<open>x[key]\<close> for a string key: a dictionary gives the value or raises \<open>KeyError\<close>;
  lists and strings take integer indices only and the other values are not subscriptable,
  so they raise \<open>TypeError\<close>.
\<close>

fun py_getitem :: "pyval \<Rightarrow> string \<Rightarrow> error + pyval" where
  "py_getitem (PDict d) k = (case map_of d k of None \<Rightarrow> Inl (KeyError k) | Some v \<Rightarrow> Inr v)"
| "py_getitem x k = Inl TypeError"

text \<open>
  \<open>x[key] = v\<close> for a string key: on a dictionary the entry is replaced in place or
  appended; every other value raises \<open>TypeError\<close>.
\<close>

fun py_setitem :: "pyval \<Rightarrow> string \<Rightarrow> pyval \<Rightarrow> error + pyval" where
  "py_setitem (PDict d) k v = Inr (PDict (AList.update k v d))"
| "py_setitem x k v = Inl TypeError"

text \<open>
  The items a \<open>for\<close> loop visits: the elements of a list, the keys of a dictionary, the
  one-character strings of a string; the other values are not iterable.
\<close>

fun py_iter :: "pyval \<Rightarrow> error + pyval list" where
  "py_iter (PList xs) = Inr xs"
| "py_iter (PDict d) = Inr (map (\<lambda>(k, v). PStr k) d)"
| "py_iter (PStr s) = Inr (map (\<lambda>c. PStr [c]) s)"
| "py_iter x = Inl TypeError"


section \<open>Parameters, SDK client and library functions\<close>

text \<open>
  \<open>module.params\<close> after the argument parser has applied \<open>argument_spec\<close>: a
  required parameter has a value of its declared type, a parameter with a default is never
  \<open>None\<close>, and every other parameter is \<open>None\<close> when it was not given. A
  parameter without a declared type is a string. \<open>vpc_subnets\<close> and
  \<open>vpc_security_groups\<close> are declared \<open>type='list', elements='str'\<close>, so they are
  \<open>None\<close> or lists of strings and the \<open>isinstance(..., string_types)\<close> branches of
  \<open>main\<close> are never taken. \<open>access_policies\<close> is declared \<open>type='dict'\<close>.
\<close>

record params =
  name :: string
  instance_type :: string
  instance_count :: int
  dedicated_master :: bool
  zone_awareness :: bool
  availability_zone_count :: "int option"
  dedicated_master_instance_type :: "string option"
  dedicated_master_instance_count :: "int option"
  ebs :: bool
  volume_type :: string
  volume_size :: int
  iops :: "int option"
  warm_enabled :: bool
  warm_type :: "string option"
  warm_count :: "int option"
  cold_storage_enabled :: bool
  access_policies :: pydict
  vpc_subnets :: "string list option"
  vpc_security_groups :: "string list option"
  snapshot_hour :: int
  engine_type :: string
  elasticsearch_version :: string
  encryption_at_rest_enabled :: bool
  encryption_at_rest_kms_key_id :: "string option"
  cognito_enabled :: bool
  cognito_user_pool_id :: "string option"
  cognito_identity_pool_id :: "string option"
  cognito_role_arn :: "string option"

text \<open>
  The three calls \<open>main\<close> makes on the boto3 client, with their keyword arguments:
  \<open>describe_elasticsearch_domain(DomainName=...)\<close>,
  \<open>update_elasticsearch_domain_config(**keyword_args)\<close> and
  \<open>create_elasticsearch_domain(**keyword_args)\<close>.
\<close>

datatype api_call =
    Describe string
  | Update pydict
  | Create pydict

text \<open>
  What a call does: it returns a response dictionary, raises
  \<open>botocore.exceptions.ClientError\<close> with \<open>e.response['Error']['Code']\<close> and
  \<open>e.response['Error']['Message']\<close> (both strings), or raises something else.
\<close>

datatype api_result =
    Returned pydict
  | ClientError string string
  | OtherFailure string

text \<open>
  Everything \<open>main\<close> uses and this repository does not define:
  \<^item> \<open>HAS_BOTO\<close>: the value of the global \<open>HAS_BOTO\<close> that line 275 reads;
  \<^item> \<open>json_dumps\<close>: \<open>json.dumps\<close>, giving the text or (\<open>Inl\<close>) the \<open>str\<close> of
    the exception it raised;
  \<^item> \<open>json_loads\<close>: \<open>json.loads\<close> on a string, \<open>None\<close> when the text is not JSON;
  \<^item> \<open>py_repr\<close>: the builtin \<open>repr\<close>, which \<open>'%s' % x\<close> uses for an \<open>x\<close>
    that is not a string;
  \<^item> \<open>client\<close>: the provider behind the boto3 client, a function of the calls made so
    far in this run and the call being made.
\<close>

record env =
  HAS_BOTO :: bool
  json_dumps :: "pyval \<Rightarrow> string + string"
  json_loads :: "string \<Rightarrow> pyval option"
  py_repr :: "pyval \<Rightarrow> string"
  client :: "api_call list \<Rightarrow> api_call \<Rightarrow> api_result"

text \<open>
  How an invocation ends: \<open>module.exit_json(changed=..., response=...)\<close>,
  \<open>module.fail_json(msg=...)\<close>, or an exception nobody handles.
\<close>

datatype outcome =
    Exit bool pydict
  | Fail string
  | Raise error

section \<open>The desired configuration\<close>

definition opt_str :: "string option \<Rightarrow> pyval" where
  "opt_str x = (case x of None \<Rightarrow> PNone | Some s \<Rightarrow> PStr s)"

definition opt_int :: "int option \<Rightarrow> pyval" where
  "opt_int x = (case x of None \<Rightarrow> PNone | Some i \<Rightarrow> PInt i)"

text \<open>
  \<open>cluster_config\<close> as it stands when the comparisons start: the literal of line 281,
  then the keys added under \<open>zone_awareness\<close>, \<open>warm_enabled\<close> and
  \<open>DedicatedMasterEnabled\<close>, in that order.
\<close>

definition cluster_config :: "params \<Rightarrow> pydict" where
  "cluster_config p =
     [(''InstanceType'', PStr (instance_type p)),
      (''InstanceCount'', PInt (instance_count p)),
      (''DedicatedMasterEnabled'', PBool (dedicated_master p)),
      (''ZoneAwarenessEnabled'', PBool (zone_awareness p)),
      (''WarmEnabled'', PBool (warm_enabled p)),
      (''ColdStorageOptions'', PDict [(''Enabled'', PBool (cold_storage_enabled p))])]
     @ (if zone_awareness p
        then [(''ZoneAwarenessConfig'',
               PDict [(''AvailabilityZoneCount'', opt_int (availability_zone_count p))])]
        else [])
     @ (if warm_enabled p
        then [(''WarmType'', opt_str (warm_type p)), (''WarmCount'', opt_int (warm_count p))]
        else [])
     @ (if dedicated_master p
        then [(''DedicatedMasterType'', opt_str (dedicated_master_instance_type p)),
              (''DedicatedMasterCount'', opt_int (dedicated_master_instance_count p))]
        else [])"

definition ebs_options :: "params \<Rightarrow> pydict" where
  "ebs_options p =
     [(''EBSEnabled'', PBool (ebs p))]
     @ (if ebs p
        then [(''VolumeType'', PStr (volume_type p)), (''VolumeSize'', PInt (volume_size p))]
        else [])
     @ (case iops p of None \<Rightarrow> [] | Some i \<Rightarrow> [(''Iops'', PInt i)])"

definition encryption_at_rest_options :: "params \<Rightarrow> pydict" where
  "encryption_at_rest_options p =
     [(''Enabled'', PBool (encryption_at_rest_enabled p))]
     @ (if encryption_at_rest_enabled p
        then [(''KmsKeyId'', opt_str (encryption_at_rest_kms_key_id p))]
        else [])"

definition cognito_options :: "params \<Rightarrow> pydict" where
  "cognito_options p =
     (if cognito_enabled p
      then [(''Enabled'', PBool True),
            (''UserPoolId'', opt_str (cognito_user_pool_id p)),
            (''IdentityPoolId'', opt_str (cognito_identity_pool_id p)),
            (''RoleArn'', opt_str (cognito_role_arn p))]
      else [(''Enabled'', PBool False)])"

text \<open>\<open>if vpc_subnets:\<close> on \<open>None\<close> or a list: true for a non-empty list only.\<close>

definition given :: "string list option \<Rightarrow> bool" where
  "given x = (case x of None \<Rightarrow> False | Some xs \<Rightarrow> xs \<noteq> [])"

definition str_list :: "string list option \<Rightarrow> pyval" where
  "str_list x = PList (map PStr (case x of None \<Rightarrow> [] | Some xs \<Rightarrow> xs))"

definition vpc_options :: "params \<Rightarrow> pydict" where
  "vpc_options p =
     (if given (vpc_subnets p) then [(''SubnetIds'', str_list (vpc_subnets p))] else [])
     @ (if given (vpc_security_groups p)
        then [(''SecurityGroupIds'', str_list (vpc_security_groups p))]
        else [])"

definition snapshot_options :: "params \<Rightarrow> pydict" where
  "snapshot_options p = [(''AutomatedSnapshotStartHour'', PInt (snapshot_hour p))]"


section \<open>The reconciler\<close>

text \<open>\<open>'%s' % x\<close>: a string is inserted as it is, anything else through \<open>repr\<close>.\<close>

definition percent_s :: "env \<Rightarrow> pyval \<Rightarrow> string" where
  "percent_s e x = (case x of PStr s \<Rightarrow> s | _ \<Rightarrow> py_repr e x)"

text \<open>
  The loop of lines 362 to 366 over the items of \<open>policy_dict['Statement']\<close>.
  \<open>seen\<close> holds the items already visited (as they are now), the list argument the items
  still to visit, \<open>policy_dict\<close> and \<open>pdoc\<close> the two variables the loop assigns.
  A statement without \<open>'Resource'\<close> gets \<open>status['ARN']\<close> followed by \<open>/*\<close>, and
  \<open>pdoc\<close> is serialised again from the policy as it then stands. The statement is
  changed in place, so the policy holds the new statement at the same position; the item
  can only be changed when it is a dictionary, and then the statements are a list.
\<close>

fun statement_loop ::
  "env \<Rightarrow> pyval \<Rightarrow> pyval list \<Rightarrow> pyval list \<Rightarrow> pydict \<Rightarrow> string \<Rightarrow> error + (pydict \<times> string)"
where
  "statement_loop e status seen [] policy_dict pdoc = Inr (policy_dict, pdoc)"
| "statement_loop e status seen (statement # rest) policy_dict pdoc =
     (case py_contains statement ''Resource'' of
        Inl err \<Rightarrow> Inl err
      | Inr True \<Rightarrow> statement_loop e status (seen @ [statement]) rest policy_dict pdoc
      | Inr False \<Rightarrow>
          (case py_getitem status ''ARN'' of
             Inl err \<Rightarrow> Inl err
           | Inr arn \<Rightarrow>
               (case py_setitem statement ''Resource'' (PStr (percent_s e arn @ ''/*'')) of
                  Inl err \<Rightarrow> Inl err
                | Inr statement' \<Rightarrow>
                    (let policy_dict' =
                           AList.update ''Statement'' (PList (seen @ statement' # rest))
                             policy_dict
                     in case json_dumps e (PDict policy_dict') of
                          Inl m \<Rightarrow> Inl (SerializeError m)
                        | Inr pdoc' \<Rightarrow>
                            statement_loop e status (seen @ [statement']) rest
                              policy_dict' pdoc'))))"

text \<open>Lines 361 to 366: the policy of the parameters, made ready for the comparison.\<close>

definition normalise_policy ::
  "env \<Rightarrow> pyval \<Rightarrow> pydict \<Rightarrow> string \<Rightarrow> error + (pydict \<times> string)"
where
  "normalise_policy e status policy_dict pdoc =
     (case py_getitem (PDict policy_dict) ''Statement'' of
        Inl err \<Rightarrow> Inl err
      | Inr statements \<Rightarrow>
          (case py_iter statements of
             Inl err \<Rightarrow> Inl err
           | Inr items \<Rightarrow> statement_loop e status [] items policy_dict pdoc))"

text \<open>\<open>status[key] != desired\<close>, lines 368 to 375 and 383.\<close>

definition block_differs :: "pyval \<Rightarrow> string \<Rightarrow> pydict \<Rightarrow> error + bool" where
  "block_differs status key desired =
     (case py_getitem status key of
        Inl err \<Rightarrow> Inl err
      | Inr current \<Rightarrow> Inr (\<not> py_eq current (PDict desired)))"

text \<open>
  Lines 377 to 381. Each comparison reads the current side first, then the desired side.
\<close>

definition vpc_differs :: "params \<Rightarrow> pyval \<Rightarrow> error + bool" where
  "vpc_differs p status =
     (case py_contains status ''VPCOptions'' of
        Inl err \<Rightarrow> Inl err
      | Inr False \<Rightarrow> Inr False
      | Inr True \<Rightarrow>
          (case py_getitem status ''VPCOptions'' of
             Inl err \<Rightarrow> Inl err
           | Inr current \<Rightarrow>
               (case py_getitem current ''SubnetIds'' of
                  Inl err \<Rightarrow> Inl err
                | Inr cur_subnets \<Rightarrow>
                    (case py_getitem (PDict (vpc_options p)) ''SubnetIds'' of
                       Inl err \<Rightarrow> Inl err
                     | Inr subnets \<Rightarrow>
                         (case py_getitem current ''SecurityGroupIds'' of
                            Inl err \<Rightarrow> Inl err
                          | Inr cur_groups \<Rightarrow>
                              (case py_getitem (PDict (vpc_options p)) ''SecurityGroupIds'' of
                                 Inl err \<Rightarrow> Inl err
                               | Inr groups \<Rightarrow>
                                   Inr (\<not> py_eq cur_subnets subnets
                                        \<or> \<not> py_eq cur_groups groups)))))))"

text \<open>
  Lines 386 to 388. \<open>json.loads\<close> raises \<open>TypeError\<close> on a value that is not text and
  \<open>ValueError\<close> on text that is not JSON.
\<close>

definition policy_differs :: "env \<Rightarrow> pyval \<Rightarrow> pydict \<Rightarrow> error + bool" where
  "policy_differs e status policy_dict =
     (case py_getitem status ''AccessPolicies'' of
        Inl err \<Rightarrow> Inl err
      | Inr (PStr text) \<Rightarrow>
          (case json_loads e text of
             None \<Rightarrow> Inl ValueError
           | Some current_policy_dict \<Rightarrow>
               Inr (\<not> py_eq current_policy_dict (PDict policy_dict)))
      | Inr _ \<Rightarrow> Inl TypeError)"

text \<open>
  Lines 368 to 388: the value of \<open>changed\<close> when line 390 is reached, or the exception
  that one of the comparisons raised. The comparisons run in the order of the source;
  \<open>changed\<close> starts as \<open>False\<close> and each comparison can only set it.
\<close>

definition detect_changes :: "env \<Rightarrow> params \<Rightarrow> pyval \<Rightarrow> pydict \<Rightarrow> error + bool" where
  "detect_changes e p status policy_dict =
     (case block_differs status ''ElasticsearchClusterConfig'' (cluster_config p) of
        Inl err \<Rightarrow> Inl err
      | Inr c1 \<Rightarrow>
     (case block_differs status ''EBSOptions'' (ebs_options p) of
        Inl err \<Rightarrow> Inl err
      | Inr c2 \<Rightarrow>
     (case block_differs status ''CognitoOptions'' (cognito_options p) of
        Inl err \<Rightarrow> Inl err
      | Inr c3 \<Rightarrow>
     (case vpc_differs p status of
        Inl err \<Rightarrow> Inl err
      | Inr c4 \<Rightarrow>
     (case block_differs status ''SnapshotOptions'' (snapshot_options p) of
        Inl err \<Rightarrow> Inl err
      | Inr c5 \<Rightarrow>
     (case policy_differs e status policy_dict of
        Inl err \<Rightarrow> Inl err
      | Inr c6 \<Rightarrow> Inr (c1 \<or> c2 \<or> c3 \<or> c4 \<or> c5 \<or> c6)))))))"

text \<open>
  Lines 358 to 388 for a response of the first read: the value of \<open>changed\<close> and of
  \<open>pdoc\<close> at line 390.
\<close>

definition existing_domain :: "env \<Rightarrow> params \<Rightarrow> pydict \<Rightarrow> string \<Rightarrow> error + (bool \<times> string)" where
  "existing_domain e p response pdoc =
     (case py_getitem (PDict response) ''DomainStatus'' of
        Inl err \<Rightarrow> Inl err
      | Inr status \<Rightarrow>
          (case normalise_policy e status (access_policies p) pdoc of
             Inl err \<Rightarrow> Inl err
           | Inr (policy_dict, pdoc') \<Rightarrow>
               (case detect_changes e p status policy_dict of
                  Inl err \<Rightarrow> Inl err
                | Inr changed \<Rightarrow> Inr (changed, pdoc'))))"

definition update_kwargs :: "params \<Rightarrow> string \<Rightarrow> pydict" where
  "update_kwargs p pdoc =
     [(''DomainName'', PStr (name p)),
      (''ElasticsearchClusterConfig'', PDict (cluster_config p)),
      (''EBSOptions'', PDict (ebs_options p)),
      (''SnapshotOptions'', PDict (snapshot_options p)),
      (''AccessPolicies'', PStr pdoc),
      (''CognitoOptions'', PDict (cognito_options p))]"

definition create_kwargs :: "params \<Rightarrow> string \<Rightarrow> pydict" where
  "create_kwargs p pdoc =
     [(''DomainName'', PStr (name p)),
      (''EngineVersion'', PStr (engine_type p @ ''_'' @ elasticsearch_version p)),
      (''EncryptionAtRestOptions'', PDict (encryption_at_rest_options p)),
      (''ElasticsearchClusterConfig'', PDict (cluster_config p)),
      (''EBSOptions'', PDict (ebs_options p)),
      (''SnapshotOptions'', PDict (snapshot_options p)),
      (''AccessPolicies'', PStr pdoc),
      (''CognitoOptions'', PDict (cognito_options p))]"

text \<open>
  Lines 400 to 401 and 421 to 422:
  \<open>if vpc_options['SubnetIds'] or vpc_options['SecurityGroupIds']\<close>, where \<open>or\<close>
  reads its second operand only when the first is false.
\<close>

definition with_vpc_options :: "params \<Rightarrow> pydict \<Rightarrow> error + pydict" where
  "with_vpc_options p keyword_args =
     (case py_getitem (PDict (vpc_options p)) ''SubnetIds'' of
        Inl err \<Rightarrow> Inl err
      | Inr subnets \<Rightarrow>
          if py_truthy subnets
          then Inr (AList.update ''VPCOptions'' (PDict (vpc_options p)) keyword_args)
          else (case py_getitem (PDict (vpc_options p)) ''SecurityGroupIds'' of
                  Inl err \<Rightarrow> Inl err
                | Inr groups \<Rightarrow>
                    if py_truthy groups
                    then Inr (AList.update ''VPCOptions'' (PDict (vpc_options p)) keyword_args)
                    else Inr keyword_args))"

text \<open>
  Lines 430 to 431, outside the \<open>try\<close>: read the domain again and exit. \<open>calls\<close> are
  the calls made before.
\<close>

definition final_describe :: "env \<Rightarrow> params \<Rightarrow> api_call list \<Rightarrow> bool \<Rightarrow> api_call list \<times> outcome" where
  "final_describe e p calls changed =
     (case client e calls (Describe (name p)) of
        Returned response \<Rightarrow> (calls @ [Describe (name p)], Exit changed response)
      | ClientError code message \<Rightarrow>
          (calls @ [Describe (name p)], Raise (BotoClientError code message))
      | OtherFailure x \<Rightarrow> (calls @ [Describe (name p)], Raise (OtherException x)))"

text \<open>
  Lines 405 to 427, the handler of \<open>ClientError\<close>, entered with the calls made so far and
  the current \<open>pdoc\<close>. An exception raised inside the handler is not handled.
\<close>

definition except_handler ::
  "env \<Rightarrow> params \<Rightarrow> api_call list \<Rightarrow> string \<Rightarrow> string \<Rightarrow> string \<Rightarrow> api_call list \<times> outcome"
where
  "except_handler e p calls pdoc code message =
     (if code = ''ResourceNotFoundException''
      then (case with_vpc_options p (create_kwargs p pdoc) of
              Inl err \<Rightarrow> (calls, Raise err)
            | Inr keyword_args \<Rightarrow>
                (case client e calls (Create keyword_args) of
                   Returned response \<Rightarrow>
                     final_describe e p (calls @ [Create keyword_args]) True
                 | ClientError code' message' \<Rightarrow>
                     (calls @ [Create keyword_args], Raise (BotoClientError code' message'))
                 | OtherFailure x \<Rightarrow>
                     (calls @ [Create keyword_args], Raise (OtherException x))))
      else (calls, Fail (''Error: '' @ code @ '' '' @ message)))"

text \<open>
  \<open>main\<close>, from the check of \<open>HAS_BOTO\<close> on, with the parsed parameters and the client
  given. The result is the list of calls made on the client, in order, and how the
  invocation ended.
\<close>

definition main :: "env \<Rightarrow> params \<Rightarrow> api_call list \<times> outcome" where
  "main e p =
     (if \<not> HAS_BOTO e
      then ([], Fail ''boto3 required for this module, install via pip or your package manager'')
      else
        (case json_dumps e (PDict (access_policies p)) of
           Inl m \<Rightarrow> ([], Fail (''Failed to convert the policy into valid JSON: '' @ m))
         | Inr pdoc \<Rightarrow>
             (case client e [] (Describe (name p)) of
                ClientError code message \<Rightarrow>
                  except_handler e p [Describe (name p)] pdoc code message
              | OtherFailure x \<Rightarrow> ([Describe (name p)], Raise (OtherException x))
              | Returned response \<Rightarrow>
                  (case existing_domain e p response pdoc of
                     Inl err \<Rightarrow> ([Describe (name p)], Raise err)
                   | Inr (changed, pdoc') \<Rightarrow>
                       if changed
                       then (case with_vpc_options p (update_kwargs p pdoc') of
                               Inl err \<Rightarrow> ([Describe (name p)], Raise err)
                             | Inr keyword_args \<Rightarrow>
                                 (case client e [Describe (name p)] (Update keyword_args) of
                                    Returned response' \<Rightarrow>
                                      final_describe e p
                                        [Describe (name p), Update keyword_args] True
                                  | ClientError code message \<Rightarrow>
                                      except_handler e p
                                        [Describe (name p), Update keyword_args]
                                        pdoc' code message
                                  | OtherFailure x \<Rightarrow>
                                      ([Describe (name p), Update keyword_args],
                                       Raise (OtherException x))))
                       else final_describe e p [Describe (name p)] False))))"


section \<open>What the specification says about equal blocks\<close>

text \<open>
  The reading of "the current state equals the desired configuration in a compared block":
  the block is there in the current state and Python's \<open>==\<close> holds between it and the
  block built from the parameters.
\<close>

definition block_equal :: "pyval \<Rightarrow> string \<Rightarrow> pydict \<Rightarrow> bool" where
  "block_equal status key desired =
     (case py_getitem status key of Inl err \<Rightarrow> False
      | Inr current \<Rightarrow> py_eq current (PDict desired))"

text \<open>
  "VPC options when present": a status without \<open>'VPCOptions'\<close> has nothing to compare;
  one with it has the subnet ids and the security group ids of the desired VPC options.
\<close>

definition field_equal :: "pyval \<Rightarrow> pydict \<Rightarrow> string \<Rightarrow> bool" where
  "field_equal current desired key =
     (case (py_getitem current key, map_of desired key) of
        (Inr a, Some b) \<Rightarrow> py_eq a b
      | _ \<Rightarrow> False)"

definition vpc_equal :: "pyval \<Rightarrow> pydict \<Rightarrow> bool" where
  "vpc_equal status desired =
     (case status of
        PDict d \<Rightarrow>
          (case map_of d ''VPCOptions'' of
             None \<Rightarrow> True
           | Some current \<Rightarrow>
               field_equal current desired ''SubnetIds''
               \<and> field_equal current desired ''SecurityGroupIds'')
      | _ \<Rightarrow> False)"

text \<open>
  The parsed access policy of the current state equals the given policy document.
\<close>

definition policy_equal :: "env \<Rightarrow> pyval \<Rightarrow> pydict \<Rightarrow> bool" where
  "policy_equal e status policy_dict =
     (case py_getitem status ''AccessPolicies'' of
        Inr (PStr text) \<Rightarrow>
          (case json_loads e text of
             None \<Rightarrow> False
           | Some current \<Rightarrow> py_eq current (PDict policy_dict))
      | _ \<Rightarrow> False)"

text \<open>
  What the provider does to a stored policy, in the words of the source ("The ES APIs
  will implicitly set this"): a statement without \<open>'Resource'\<close> gets the ARN of the
  domain followed by \<open>/*\<close>.
\<close>

definition populate :: "string \<Rightarrow> pydict \<Rightarrow> pydict" where
  "populate arn statement =
     (if map_of statement ''Resource'' = None
      then statement @ [(''Resource'', PStr (arn @ ''/*''))]
      else statement)"

definition populated_policy :: "string \<Rightarrow> pydict \<Rightarrow> pydict list \<Rightarrow> pydict" where
  "populated_policy arn policy_dict statements =
     AList.update ''Statement'' (PList (map (\<lambda>s. PDict (populate arn s)) statements))
       policy_dict"


text \<open>Whether a call is a write.\<close>

fun is_write :: "api_call \<Rightarrow> bool" where
  "is_write (Describe n) = False"
| "is_write (Update k) = True"
| "is_write (Create k) = True"

text \<open>
  "Encryption-at-rest options are supplied only on the create path", written out: a create
  call carries under \<open>EncryptionAtRestOptions\<close> the dictionary with \<open>Enabled\<close> set to
  the parameter \<open>encryption_at_rest_enabled\<close> and, when that is true, \<open>KmsKeyId\<close> set
  to the parameter \<open>encryption_at_rest_kms_key_id\<close> (\<open>None\<close> when it was not given);
  an update call has no such key.
\<close>

definition encryption_as_given :: "params \<Rightarrow> pyval" where
  "encryption_as_given p =
     (if encryption_at_rest_enabled p
      then PDict [(''Enabled'', PBool True),
                  (''KmsKeyId'',
                   case encryption_at_rest_kms_key_id p of
                     None \<Rightarrow> PNone
                   | Some key \<Rightarrow> PStr key)]
      else PDict [(''Enabled'', PBool False)])"

fun encryption_rule :: "params \<Rightarrow> api_call \<Rightarrow> bool" where
  "encryption_rule p (Describe n) = True"
| "encryption_rule p (Update k) = (map_of k ''EncryptionAtRestOptions'' = None)"
| "encryption_rule p (Create k) =
     (map_of k ''EncryptionAtRestOptions'' = Some (encryption_as_given p))"

section \<open>Example invocations\<close>

text \<open>The parameters of the example in the module's documentation.\<close>

definition example_policy :: pydict where
  "example_policy =
     [(''Version'', PStr ''2012-10-17''),
      (''Statement'',
       PList [PDict [(''Effect'', PStr ''Allow''),
                     (''Principal'', PStr ''*''),
                     (''Action'', PStr ''es:*'')]])]"

definition example_params :: params where
  "example_params =
     \<lparr> name = ''my-cluster'',
       instance_type = ''m3.medium.elasticsearch'',
       instance_count = 2,
       dedicated_master = True,
       zone_awareness = True,
       availability_zone_count = Some 2,
       dedicated_master_instance_type = Some ''t2.micro.elasticsearch'',
       dedicated_master_instance_count = Some 2,
       ebs = True,
       volume_type = ''io1'',
       volume_size = 10,
       iops = Some 1000,
       warm_enabled = True,
       warm_type = Some ''ultrawarm1.medium.search'',
       warm_count = Some 1,
       cold_storage_enabled = False,
       access_policies = example_policy,
       vpc_subnets = Some [''subnet-e537d64a'', ''subnet-e537d64b''],
       vpc_security_groups = Some [''sg-dd2f13cb'', ''sg-dd2f13cc''],
       snapshot_hour = 13,
       engine_type = ''ElasticSearch'',
       elasticsearch_version = ''2.3'',
       encryption_at_rest_enabled = False,
       encryption_at_rest_kms_key_id = None,
       cognito_enabled = False,
       cognito_user_pool_id = None,
       cognito_identity_pool_id = None,
       cognito_role_arn = None \<rparr>"

text \<open>The same parameters for a domain outside a VPC: both VPC lists are left out.\<close>

definition example_params_no_vpc :: params where
  "example_params_no_vpc =
     example_params \<lparr> vpc_subnets := None, vpc_security_groups := None \<rparr>"

text \<open>The same parameters with encryption at rest switched on.\<close>

definition example_params_encrypted :: params where
  "example_params_encrypted =
     example_params \<lparr> encryption_at_rest_enabled := True,
                      encryption_at_rest_kms_key_id := Some ''alias/aws/es'' \<rparr>"

definition example_arn :: string where
  "example_arn = ''arn:aws:es:eu-west-1:123456789012:domain/my-cluster''"

definition example_policy_stored :: pydict where
  "example_policy_stored =
     [(''Version'', PStr ''2012-10-17''),
      (''Statement'',
       PList [PDict [(''Effect'', PStr ''Allow''),
                     (''Principal'', PStr ''*''),
                     (''Action'', PStr ''es:*''),
                     (''Resource'', PStr (example_arn @ ''/*''))]])]"

definition example_text :: string where
  \<open>example_text =
     ''{"Version": "2012-10-17", "Statement": [{"Effect": "Allow", "Principal": "*", "Action": "es:*"}]}''\<close>

definition example_text_stored :: string where
  \<open>example_text_stored =
     ''{"Version": "2012-10-17", "Statement": [{"Effect": "Allow", "Principal": "*", "Action": "es:*", "Resource": "arn:aws:es:eu-west-1:123456789012:domain/my-cluster/*"}]}''\<close>

text \<open>
  A JSON encoder for the examples, in the format of \<open>json.dumps\<close> with its default
  separators; it is right for integers, for strings of printable ASCII characters and for
  the containers. The decoder knows the two policy documents of the examples.
\<close>

function decimal :: "nat \<Rightarrow> string" where
  "decimal n =
     (if n < 10 then [''0123456789'' ! n]
      else decimal (n div 10) @ [''0123456789'' ! (n mod 10)])"
  by pat_completeness auto
termination
  by (relation "measure (\<lambda>n. n)") auto

definition quoted :: "string \<Rightarrow> string" where
  \<open>quoted s =
     ''"''
     @ concat (map (\<lambda>c. if c = CHR ''"'' \<or> c = CHR 0x5C then [CHR 0x5C, c] else [c]) s)
     @ ''"''\<close>

fun joined :: "string list \<Rightarrow> string" where
  "joined [] = []"
| "joined [x] = x"
| "joined (x # y # ys) = x @ '', '' @ joined (y # ys)"

fun render :: "pyval \<Rightarrow> string" where
  "render PNone = ''null''"
| "render (PBool b) = (if b then ''true'' else ''false'')"
| "render (PInt i) = (if i < 0 then ''-'' @ decimal (nat (- i)) else decimal (nat i))"
| "render (PStr s) = quoted s"
| "render (PList xs) = ''['' @ joined (map render xs) @ '']''"
| "render (PDict d) =
     ''{'' @ joined (map (\<lambda>(k, v). quoted k @ '': '' @ render v) d) @ ''}''"

definition example_dumps :: "pyval \<Rightarrow> string + string" where
  "example_dumps v = Inr (render v)"

definition example_loads :: "string \<Rightarrow> pyval option" where
  "example_loads t =
     (if t = example_text then Some (PDict example_policy)
      else if t = example_text_stored then Some (PDict example_policy_stored)
      else None)"

definition example_repr :: "pyval \<Rightarrow> string" where
  "example_repr v =
     (case v of PBool True \<Rightarrow> ''True'' | PBool False \<Rightarrow> ''False'' | _ \<Rightarrow> ''None'')"

definition example_env :: "(api_call list \<Rightarrow> api_call \<Rightarrow> api_result) \<Rightarrow> env" where
  "example_env c =
     \<lparr> HAS_BOTO = True, json_dumps = example_dumps, json_loads = example_loads,
       py_repr = example_repr, client = c \<rparr>"

text \<open>
  The status of the domain as the provider reports it when it agrees with the parameters
  \<open>q\<close>; the VPC options are reported only for a domain inside a VPC.
\<close>

definition status_of :: "params \<Rightarrow> pydict" where
  "status_of q =
     [(''ARN'', PStr example_arn),
      (''DomainName'', PStr (name q)),
      (''ElasticsearchClusterConfig'', PDict (cluster_config q)),
      (''EBSOptions'', PDict (ebs_options q)),
      (''CognitoOptions'', PDict (cognito_options q)),
      (''SnapshotOptions'', PDict (snapshot_options q)),
      (''AccessPolicies'', PStr example_text_stored)]
     @ (if vpc_options q = [] then []
        else [(''VPCOptions'', PDict ((''VPCId'', PStr ''vpc-0a1b2c3d'') # vpc_options q))])"

text \<open>A provider on which the domain exists with a given status and every call returns.\<close>

definition serving :: "pydict \<Rightarrow> api_call list \<Rightarrow> api_call \<Rightarrow> api_result" where
  "serving status calls c = Returned [(''DomainStatus'', PDict status)]"

text \<open>
  A provider on which the domain does not exist until it is created: a read before any
  write raises \<open>ResourceNotFoundException\<close>.
\<close>

definition absent :: "pydict \<Rightarrow> api_call list \<Rightarrow> api_call \<Rightarrow> api_result" where
  "absent status calls c =
     (case c of
        Describe n \<Rightarrow>
          if list_ex is_write calls then Returned [(''DomainStatus'', PDict status)]
          else ClientError ''ResourceNotFoundException'' (''Domain not found: '' @ n)
      | _ \<Rightarrow> Returned [(''DomainStatus'', PDict status)])"

text \<open>A provider that refuses every call.\<close>

definition refusing :: "api_call list \<Rightarrow> api_call \<Rightarrow> api_result" where
  "refusing calls c =
     ClientError ''AccessDeniedException'' ''User is not authorized to perform this action''"

text \<open>
  The agreeing status of the documentation's example with one more field in its EBS
  options, as a provider reports it once it has introduced a new option.
\<close>

definition status_with_throughput :: pydict where
  "status_with_throughput =
     AList.update ''EBSOptions''
       (PDict (ebs_options example_params @ [(''Throughput'', PInt 125)]))
       (status_of example_params)"

section \<open>Properties of the parts\<close>

lemmas config_defs =
  cluster_config_def ebs_options_def cognito_options_def vpc_options_def
  snapshot_options_def encryption_at_rest_options_def given_def str_list_def
  opt_str_def opt_int_def

lemmas example_defs =
  example_params_def example_params_no_vpc_def example_params_encrypted_def
  example_env_def example_policy_def
  example_policy_stored_def example_arn_def example_text_def example_text_stored_def
  example_dumps_def example_loads_def example_repr_def status_of_def serving_def
  absent_def refusing_def quoted_def status_with_throughput_def

lemmas run_defs =
  main_def existing_domain_def normalise_policy_def detect_changes_def block_differs_def
  vpc_differs_def policy_differs_def with_vpc_options_def final_describe_def
  except_handler_def update_kwargs_def create_kwargs_def percent_s_def

lemma no_subnets_guard:
  "vpc_subnets p = None \<or> vpc_subnets p = Some [] \<Longrightarrow>
   with_vpc_options p kw = Inl (KeyError ''SubnetIds'')"
  by (auto simp: with_vpc_options_def vpc_options_def given_def)

lemma subnets_guard:
  "given (vpc_subnets p) \<Longrightarrow>
   with_vpc_options p kw = Inr (AList.update ''VPCOptions'' (PDict (vpc_options p)) kw)"
  by (auto simp: with_vpc_options_def vpc_options_def given_def str_list_def split: option.splits)

lemma fst_final_describe:
  "fst (final_describe e p calls changed) = calls @ [Describe (name p)]"
  by (simp add: final_describe_def split: api_result.splits)

lemma block_equal_differs:
  "block_equal status key desired \<Longrightarrow> block_differs status key desired = Inr False"
  by (simp add: block_equal_def block_differs_def split: sum.splits)

lemma vpc_equal_differs:
  "vpc_equal status (vpc_options p) \<Longrightarrow> vpc_differs p status = Inr False"
  by (auto simp: vpc_equal_def field_equal_def vpc_differs_def
      split: pyval.splits option.splits sum.splits)

lemma policy_equal_differs:
  "policy_equal e status policy_dict \<Longrightarrow> policy_differs e status policy_dict = Inr False"
  by (auto simp: policy_equal_def policy_differs_def
      split: pyval.splits option.splits sum.splits)

lemma equal_blocks_no_change:
  assumes "block_equal status ''ElasticsearchClusterConfig'' (cluster_config p)"
    and "block_equal status ''EBSOptions'' (ebs_options p)"
    and "block_equal status ''CognitoOptions'' (cognito_options p)"
    and "vpc_equal status (vpc_options p)"
    and "block_equal status ''SnapshotOptions'' (snapshot_options p)"
    and "policy_equal e status policy_dict"
  shows "detect_changes e p status policy_dict = Inr False"
  using assms
  by (simp add: detect_changes_def block_equal_differs vpc_equal_differs policy_equal_differs)

lemma unchanged_run:
  assumes "HAS_BOTO e"
    and "json_dumps e (PDict (access_policies p)) = Inr pdoc"
    and "client e [] (Describe (name p)) = Returned response"
    and "map_of response ''DomainStatus'' = Some status"
    and "normalise_policy e status (access_policies p) pdoc = Inr (policy_dict, pdoc')"
    and "detect_changes e p status policy_dict = Inr False"
    and "client e [Describe (name p)] (Describe (name p)) = Returned response'"
  shows "main e p = ([Describe (name p), Describe (name p)], Exit False response')"
  using assms by (simp add: main_def existing_domain_def final_describe_def)

lemma update_absent: "map_of d k = None \<Longrightarrow> AList.update k v d = d @ [(k, v)]"
  by (induction d) (auto split: if_splits)

lemma statement_loop_populates:
  assumes arn: "py_getitem status ''ARN'' = Inr (PStr arn)"
    and total: "\<forall>v. \<exists>t. json_dumps e v = Inr t"
  shows "map_of pol ''Statement'' = Some (PList (map PDict (seen @ rest))) \<Longrightarrow>
    \<exists>pdoc'. statement_loop e status (map PDict seen) (map PDict rest) pol pdoc =
      Inr (AList.update ''Statement'' (PList (map PDict (seen @ map (populate arn) rest))) pol,
           pdoc')"
proof (induction rest arbitrary: seen pol pdoc)
  case Nil
  then show ?case by (simp add: update_triv)
next
  case (Cons s rest)
  show ?case
  proof (cases "map_of s ''Resource''")
    case None
    let ?s' = "populate arn s"
    let ?pol' = "AList.update ''Statement'' (PList (map PDict (seen @ ?s' # rest))) pol"
    obtain t where t: "json_dumps e (PDict ?pol') = Inr t"
      using total by blast
    have set: "py_setitem (PDict s) ''Resource'' (PStr (arn @ ''/*'')) = Inr (PDict ?s')"
      using None by (simp add: populate_def update_absent)
    have "map_of ?pol' ''Statement'' = Some (PList (map PDict ((seen @ [?s']) @ rest)))"
      by (simp add: update_conv')
    from Cons.IH [OF this, of t] obtain pdoc' where
      "statement_loop e status (map PDict (seen @ [?s'])) (map PDict rest) ?pol' t =
       Inr (AList.update ''Statement''
              (PList (map PDict ((seen @ [?s']) @ map (populate arn) rest))) ?pol', pdoc')"
      by blast
    then show ?thesis
      using None arn set t by (simp add: percent_s_def)
  next
    case (Some r)
    have "map_of pol ''Statement'' = Some (PList (map PDict ((seen @ [s]) @ rest)))"
      using Cons.prems by simp
    from Cons.IH [OF this, of pdoc] show ?thesis
      using Some by (simp add: populate_def)
  qed
qed

lemma normalise_policy_populates:
  assumes "map_of policy_dict ''Statement'' = Some (PList (map PDict statements))"
    and "py_getitem status ''ARN'' = Inr (PStr arn)"
    and "\<forall>v. \<exists>t. json_dumps e v = Inr t"
  shows "\<exists>pdoc'. normalise_policy e status policy_dict pdoc =
           Inr (populated_policy arn policy_dict statements, pdoc')"
  using statement_loop_populates [OF assms(2,3), of policy_dict "[]" statements pdoc] assms(1)
  by (simp add: normalise_policy_def populated_policy_def comp_def)







lemma with_vpc_options_keeps:
  "with_vpc_options p kw = Inr kw' \<Longrightarrow> k \<noteq> ''VPCOptions'' \<Longrightarrow> map_of kw' k = map_of kw k"
  by (auto simp: with_vpc_options_def update_conv' split: sum.splits if_splits)

lemma except_handler_rule:
  assumes "list_all (encryption_rule p) calls"
  shows "list_all (encryption_rule p) (fst (except_handler e p calls pdoc code message))"
proof (cases "with_vpc_options p (create_kwargs p pdoc)")
  case (Inl err)
  then show ?thesis using assms by (simp add: except_handler_def)
next
  case (Inr kw)
  from with_vpc_options_keeps [OF this, of "''EncryptionAtRestOptions''"]
  have "encryption_rule p (Create kw)"
    by (simp add: create_kwargs_def encryption_at_rest_options_def encryption_as_given_def
        opt_str_def)
  then show ?thesis
    using assms Inr
    by (simp add: except_handler_def fst_final_describe split: api_result.splits)
qed

lemma encryption_not_compared:
  "existing_domain e
     (p\<lparr>encryption_at_rest_enabled := b, encryption_at_rest_kms_key_id := k\<rparr>) response pdoc
   = existing_domain e p response pdoc"
proof -
  let ?p' = "p\<lparr>encryption_at_rest_enabled := b, encryption_at_rest_kms_key_id := k\<rparr>"
  have blocks: "cluster_config ?p' = cluster_config p" "ebs_options ?p' = ebs_options p"
    "cognito_options ?p' = cognito_options p" "vpc_options ?p' = vpc_options p"
    "snapshot_options ?p' = snapshot_options p" "access_policies ?p' = access_policies p"
    by (simp_all add: config_defs)
  show ?thesis
    unfolding existing_domain_def detect_changes_def vpc_differs_def blocks by (rule refl)
qed


lemma create_run:
  assumes "HAS_BOTO e"
    and "json_dumps e (PDict (access_policies p)) = Inr pdoc"
    and "client e [] (Describe (name p)) = ClientError ''ResourceNotFoundException'' message"
    and "given (vpc_subnets p)"
    and "kw = AList.update ''VPCOptions'' (PDict (vpc_options p)) (create_kwargs p pdoc)"
    and "client e [Describe (name p)] (Create kw) = Returned response'"
    and "client e [Describe (name p), Create kw] (Describe (name p)) = Returned response''"
  shows "main e p = ([Describe (name p), Create kw, Describe (name p)], Exit True response'')"
  using assms by (simp add: main_def except_handler_def subnets_guard final_describe_def)



section \<open>The claims\<close>



text \<open>
  C5. When the first read of the domain raises a provider error whose code is not
  \<open>ResourceNotFoundException\<close>, the module fails with the message
  \<open>Error: <code> <message>\<close>, carrying the provider's code and message unchanged; the
  read is its only call, so no create and no update is issued.
\<close>

theorem other_provider_error_is_fatal:
  assumes "HAS_BOTO e"
    and "json_dumps e (PDict (access_policies p)) = Inr pdoc"
    and "client e [] (Describe (name p)) = ClientError code message"
    and "code \<noteq> ''ResourceNotFoundException''"
  shows "main e p = ([Describe (name p)], Fail (''Error: '' @ code @ '' '' @ message))
         \<and> \<not> list_ex is_write (fst (main e p))"
  using assms by (simp add: main_def except_handler_def)

theorem other_provider_error_is_fatal_witness:
  "main (example_env refusing) example_params
   = ([Describe (name example_params)],
      Fail (''Error: '' @ ''AccessDeniedException'' @ '' ''
            @ ''User is not authorized to perform this action''))
   \<and> \<not> list_ex is_write (fst (main (example_env refusing) example_params))"
proof -
  have 1: "HAS_BOTO (example_env refusing)"
    by (simp add: example_env_def)
  have 2: "json_dumps (example_env refusing) (PDict (access_policies example_params))
           = Inr example_text"
    by (simp add: example_defs)
  have 3: "client (example_env refusing) [] (Describe (name example_params))
           = ClientError ''AccessDeniedException''
               ''User is not authorized to perform this action''"
    by (simp add: example_env_def refusing_def)
  have 4: "''AccessDeniedException'' \<noteq> ''ResourceNotFoundException''"
    by simp
  show ?thesis
    by (rule other_provider_error_is_fatal [OF 1 2 3 4])
qed

text \<open>
  C8. When \<open>json.dumps\<close> cannot serialise the access-policy parameter, the module fails
  with the message \<open>Failed to convert the policy into valid JSON: ...\<close> and has made
  no call on the provider: no read, no create, no update.
\<close>

theorem unserialisable_policy_fails_first:
  assumes "HAS_BOTO e"
    and "json_dumps e (PDict (access_policies p)) = Inl m"
  shows "main e p = ([], Fail (''Failed to convert the policy into valid JSON: '' @ m))"
  using assms by (simp add: main_def)

theorem unserialisable_policy_fails_first_witness:
  "main (example_env refusing
           \<lparr>json_dumps := \<lambda>v. Inl ''Object of type set is not JSON serializable''\<rparr>)
     example_params
   = ([], Fail (''Failed to convert the policy into valid JSON: ''
                @ ''Object of type set is not JSON serializable''))"
proof -
  let ?e = "example_env refusing
              \<lparr>json_dumps := \<lambda>v. Inl ''Object of type set is not JSON serializable''\<rparr>"
  have 1: "HAS_BOTO ?e"
    by (simp add: example_env_def)
  have 2: "json_dumps ?e (PDict (access_policies example_params))
           = Inl ''Object of type set is not JSON serializable''"
    by simp
  show ?thesis
    by (rule unserialisable_policy_fails_first [OF 1 2])
qed

text \<open>
  C10. On an existing domain (the read returns a response with a \<open>DomainStatus\<close>), an
  access-policy parameter without a top-level \<open>'Statement'\<close> key makes the module raise
  an unhandled \<open>KeyError('Statement')\<close> while it prepares the policy for the comparison:
  it reports neither a difference nor a configuration error, and makes no further call.
\<close>

theorem missing_statement_raises:
  assumes "HAS_BOTO e"
    and "json_dumps e (PDict (access_policies p)) = Inr pdoc"
    and "client e [] (Describe (name p)) = Returned response"
    and "map_of response ''DomainStatus'' = Some status"
    and "map_of (access_policies p) ''Statement'' = None"
  shows "main e p = ([Describe (name p)], Raise (KeyError ''Statement''))"
  using assms by (simp add: main_def existing_domain_def normalise_policy_def)

theorem missing_statement_raises_witness:
  "main (example_env (serving (status_of example_params)))
     (example_params\<lparr>access_policies := [(''Version'', PStr ''2012-10-17'')]\<rparr>)
   = ([Describe (name (example_params\<lparr>access_policies := [(''Version'', PStr ''2012-10-17'')]\<rparr>))],
      Raise (KeyError ''Statement''))"
proof -
  let ?e = "example_env (serving (status_of example_params))"
  let ?p = "example_params\<lparr>access_policies := [(''Version'', PStr ''2012-10-17'')]\<rparr>"
  let ?status = "PDict (status_of example_params)"
  have 1: "HAS_BOTO ?e"
    by (simp add: example_env_def)
  have 2: "json_dumps ?e (PDict (access_policies ?p))
           = Inr (render (PDict [(''Version'', PStr ''2012-10-17'')]))"
    by (simp add: example_env_def example_dumps_def)
  have 3: "client ?e [] (Describe (name ?p)) = Returned [(''DomainStatus'', ?status)]"
    by (simp add: example_env_def serving_def)
  have 4: "map_of [(''DomainStatus'', ?status)] ''DomainStatus'' = Some ?status"
    by simp
  have 5: "map_of (access_policies ?p) ''Statement'' = None"
    by simp
  show ?thesis
    by (rule missing_statement_raises [OF 1 2 3 4 5])
qed

text \<open>
  C9. When \<open>vpc_subnets\<close> is absent or empty, the guard before a write raises
  \<open>KeyError('SubnetIds')\<close>, which nobody handles: so it is on the create branch (the
  read raised \<open>ResourceNotFoundException\<close>) and on the update branch (the comparisons
  ended with \<open>changed = True\<close>), each time with the read as the only call, and no run
  with such parameters ever makes a write call.
\<close>

theorem write_without_subnets_raises:
  assumes "vpc_subnets p = None \<or> vpc_subnets p = Some []"
  shows "(HAS_BOTO e \<and> json_dumps e (PDict (access_policies p)) = Inr pdoc
          \<and> client e [] (Describe (name p)) = ClientError ''ResourceNotFoundException'' message
          \<longrightarrow> main e p = ([Describe (name p)], Raise (KeyError ''SubnetIds'')))
       \<and> (HAS_BOTO e \<and> json_dumps e (PDict (access_policies p)) = Inr pdoc
          \<and> client e [] (Describe (name p)) = Returned response
          \<and> existing_domain e p response pdoc = Inr (True, pdoc')
          \<longrightarrow> main e p = ([Describe (name p)], Raise (KeyError ''SubnetIds'')))
       \<and> \<not> list_ex is_write (fst (main e p))"
proof -
  have guard: "with_vpc_options p kw = Inl (KeyError ''SubnetIds'')" for kw
    using assms by (rule no_subnets_guard)
  have handler: "except_handler e p calls d c m =
      (if c = ''ResourceNotFoundException'' then (calls, Raise (KeyError ''SubnetIds''))
       else (calls, Fail (''Error: '' @ c @ '' '' @ m)))" for calls d c m
    by (simp add: except_handler_def guard)
  have "\<not> list_ex is_write (fst (main e p))"
    by (simp add: main_def handler guard fst_final_describe
        split: sum.splits api_result.splits prod.splits)
  moreover have "HAS_BOTO e \<and> json_dumps e (PDict (access_policies p)) = Inr pdoc
          \<and> client e [] (Describe (name p)) = ClientError ''ResourceNotFoundException'' message
          \<longrightarrow> main e p = ([Describe (name p)], Raise (KeyError ''SubnetIds''))"
    by (simp add: main_def handler)
  moreover have "HAS_BOTO e \<and> json_dumps e (PDict (access_policies p)) = Inr pdoc
          \<and> client e [] (Describe (name p)) = Returned response
          \<and> existing_domain e p response pdoc = Inr (True, pdoc')
          \<longrightarrow> main e p = ([Describe (name p)], Raise (KeyError ''SubnetIds''))"
    by (simp add: main_def guard)
  ultimately show ?thesis by blast
qed

theorem write_without_subnets_raises_witness:
  "main (example_env (absent (status_of example_params_no_vpc))) example_params_no_vpc
   = ([Describe (name example_params_no_vpc)], Raise (KeyError ''SubnetIds''))
   \<and> main (example_env (serving (status_of (example_params_no_vpc\<lparr>volume_size := 20\<rparr>))))
       example_params_no_vpc
     = ([Describe (name example_params_no_vpc)], Raise (KeyError ''SubnetIds''))"
proof -
  let ?p = "example_params_no_vpc"
  let ?e1 = "example_env (absent (status_of ?p))"
  let ?st = "status_of (?p\<lparr>volume_size := 20\<rparr>)"
  let ?e2 = "example_env (serving ?st)"
  have p: "vpc_subnets ?p = None \<or> vpc_subnets ?p = Some []"
    by (simp add: example_params_no_vpc_def)
  have a1: "HAS_BOTO ?e1" and a2: "HAS_BOTO ?e2"
    by (simp_all add: example_env_def)
  have b1: "json_dumps ?e1 (PDict (access_policies ?p)) = Inr example_text"
    and b2: "json_dumps ?e2 (PDict (access_policies ?p)) = Inr example_text"
    by (simp_all add: example_defs)
  have c1: "client ?e1 [] (Describe (name ?p))
            = ClientError ''ResourceNotFoundException'' ''Domain not found: my-cluster''"
    by (simp add: example_defs)
  have c2: "client ?e2 [] (Describe (name ?p)) = Returned [(''DomainStatus'', PDict ?st)]"
    by (simp add: example_env_def serving_def)
  have d2: "existing_domain ?e2 ?p [(''DomainStatus'', PDict ?st)] example_text
            = Inr (True, example_text_stored)"
    by (simp add: existing_domain_def normalise_policy_def detect_changes_def
        block_differs_def vpc_differs_def policy_differs_def percent_s_def
        config_defs example_defs)
  from write_without_subnets_raises [OF p, of ?e1 example_text
      "''Domain not found: my-cluster''"] a1 b1 c1
  have "main ?e1 ?p = ([Describe (name ?p)], Raise (KeyError ''SubnetIds''))"
    by blast
  moreover
  from write_without_subnets_raises [OF p, of ?e2 example_text _
      "[(''DomainStatus'', PDict ?st)]" example_text_stored] a2 b2 c2 d2
  have "main ?e2 ?p = ([Describe (name ?p)], Raise (KeyError ''SubnetIds''))"
    by blast
  ultimately show ?thesis by simp
qed

text \<open>
  C2. The claim: whenever the read succeeds and a compared field differs, the module
  issues one update call with the full desired configuration and reports
  \<open>changed = True\<close>. The code does so for the documentation's example, whose VPC lists
  are given, when the current volume size is 20 and the desired one 10. For the same
  parameters without the two VPC lists (both are optional) it raises
  \<open>KeyError('SubnetIds')\<close> at the guard of line 400 and issues no update.
\<close>

theorem update_without_vpc_raises:
  "main (example_env (serving (status_of (example_params\<lparr>volume_size := 20\<rparr>))))
     example_params
   = ([Describe ''my-cluster'',
       Update (AList.update ''VPCOptions'' (PDict (vpc_options example_params))
                 (update_kwargs example_params example_text_stored)),
       Describe ''my-cluster''],
      Exit True [(''DomainStatus'', PDict (status_of (example_params\<lparr>volume_size := 20\<rparr>)))])
   \<and> main (example_env (serving (status_of (example_params_no_vpc\<lparr>volume_size := 20\<rparr>))))
       example_params_no_vpc
     = ([Describe ''my-cluster''], Raise (KeyError ''SubnetIds''))"
  by (simp add: run_defs config_defs example_defs)

theorem update_without_vpc_raises_witness:
  "\<not> list_ex is_write
       (fst (main (example_env (serving (status_of (example_params_no_vpc\<lparr>volume_size := 20\<rparr>))))
               example_params_no_vpc))"
  using update_without_vpc_raises by simp

text \<open>
  C3. The claim: whenever the first read fails with \<open>ResourceNotFoundException\<close>, the
  module issues one create call with the full desired configuration, encryption-at-rest
  options included, and reports \<open>changed = True\<close>. The code does so for the
  documentation's example. For the same parameters without the two VPC lists it raises
  \<open>KeyError('SubnetIds')\<close> at the guard of line 421 and issues no create.
\<close>

theorem create_without_vpc_raises:
  "main (example_env (absent (status_of example_params))) example_params
   = ([Describe ''my-cluster'',
       Create (AList.update ''VPCOptions'' (PDict (vpc_options example_params))
                 (create_kwargs example_params example_text)),
       Describe ''my-cluster''],
      Exit True [(''DomainStatus'', PDict (status_of example_params))])
   \<and> main (example_env (absent (status_of example_params_no_vpc))) example_params_no_vpc
     = ([Describe ''my-cluster''], Raise (KeyError ''SubnetIds''))"
  by (simp add: run_defs config_defs example_defs)

theorem create_without_vpc_raises_witness:
  "\<not> list_ex is_write
       (fst (main (example_env (absent (status_of example_params_no_vpc)))
               example_params_no_vpc))"
  using create_without_vpc_raises by simp

text \<open>
  C7. Encryption-at-rest options are supplied on the create path only: in every run, each
  create call carries under \<open>EncryptionAtRestOptions\<close> the dictionary built from the
  two encryption parameters (\<open>Enabled\<close>, and \<open>KmsKeyId\<close> when enabled) and no update
  call has that key; and the two encryption parameters have no part in the comparisons, so
  changing them changes neither \<open>changed\<close> nor \<open>pdoc\<close>.
\<close>

theorem encryption_only_on_create:
  "(\<forall>kw. Create kw \<in> set (fst (main e p)) \<longrightarrow>
      map_of kw ''EncryptionAtRestOptions''
      = Some (if encryption_at_rest_enabled p
              then PDict [(''Enabled'', PBool True),
                          (''KmsKeyId'',
                           case encryption_at_rest_kms_key_id p of
                             None \<Rightarrow> PNone
                           | Some key \<Rightarrow> PStr key)]
              else PDict [(''Enabled'', PBool False)]))
   \<and> (\<forall>kw. Update kw \<in> set (fst (main e p)) \<longrightarrow>
        map_of kw ''EncryptionAtRestOptions'' = None)
   \<and> existing_domain e
        (p\<lparr>encryption_at_rest_enabled := b, encryption_at_rest_kms_key_id := k\<rparr>)
        response pdoc
     = existing_domain e p response pdoc"
proof -
  have update: "map_of kw ''EncryptionAtRestOptions'' = None"
    if "with_vpc_options p (update_kwargs p d) = Inr kw" for d kw
    using with_vpc_options_keeps [OF that, of "''EncryptionAtRestOptions''"]
    by (simp add: update_kwargs_def)
  have "list_all (encryption_rule p) (fst (main e p))"
    by (auto simp: main_def fst_final_describe
        split: sum.splits api_result.splits prod.splits
        intro!: except_handler_rule dest: update)
  then have all: "encryption_rule p c" if "c \<in> set (fst (main e p))" for c
    using that by (simp add: list_all_iff)
  have "map_of kw ''EncryptionAtRestOptions'' = Some (encryption_as_given p)"
    if "Create kw \<in> set (fst (main e p))" for kw
    using all [OF that] by simp
  moreover have "map_of kw ''EncryptionAtRestOptions'' = None"
    if "Update kw \<in> set (fst (main e p))" for kw
    using all [OF that] by simp
  ultimately show ?thesis
    by (simp add: encryption_not_compared encryption_as_given_def)
qed

theorem encryption_only_on_create_witness:
  "(\<exists>kw. fst (main (example_env (absent (status_of example_params_encrypted)))
                example_params_encrypted)
          = [Describe ''my-cluster'', Create kw, Describe ''my-cluster'']
        \<and> map_of kw ''EncryptionAtRestOptions''
          = Some (PDict [(''Enabled'', PBool True), (''KmsKeyId'', PStr ''alias/aws/es'')]))
   \<and> (\<exists>kw. fst (main (example_env
                         (serving (status_of (example_params_encrypted\<lparr>volume_size := 20\<rparr>))))
                  example_params_encrypted)
            = [Describe ''my-cluster'', Update kw, Describe ''my-cluster'']
          \<and> map_of kw ''EncryptionAtRestOptions'' = None)"
proof -
  let ?p = "example_params_encrypted"
  let ?e1 = "example_env (absent (status_of ?p))"
  let ?e2 = "example_env (serving (status_of (?p\<lparr>volume_size := 20\<rparr>)))"
  let ?create = "AList.update ''VPCOptions'' (PDict (vpc_options ?p))
                   (create_kwargs ?p example_text)"
  let ?update = "AList.update ''VPCOptions'' (PDict (vpc_options ?p))
                   (update_kwargs ?p example_text_stored)"
  have on: "encryption_at_rest_enabled ?p"
    and key: "encryption_at_rest_kms_key_id ?p = Some ''alias/aws/es''"
    by (simp_all add: example_params_encrypted_def)
  have run1: "fst (main ?e1 ?p) = [Describe ''my-cluster'', Create ?create, Describe ''my-cluster'']"
    by (simp add: run_defs config_defs example_defs)
  have run2: "fst (main ?e2 ?p) = [Describe ''my-cluster'', Update ?update, Describe ''my-cluster'']"
    by (simp add: run_defs config_defs example_defs)
  from encryption_only_on_create [where p = ?p and e = ?e1] run1
  have "map_of ?create ''EncryptionAtRestOptions''
        = Some (if encryption_at_rest_enabled ?p
                then PDict [(''Enabled'', PBool True),
                            (''KmsKeyId'',
                             case encryption_at_rest_kms_key_id ?p of
                               None \<Rightarrow> PNone
                             | Some key \<Rightarrow> PStr key)]
                else PDict [(''Enabled'', PBool False)])"
    by simp
  with on key have 1: "map_of ?create ''EncryptionAtRestOptions''
        = Some (PDict [(''Enabled'', PBool True), (''KmsKeyId'', PStr ''alias/aws/es'')])"
    by simp
  from encryption_only_on_create [where p = ?p and e = ?e2] run2
  have 2: "map_of ?update ''EncryptionAtRestOptions'' = None"
    by simp
  from run1 1 run2 2 show ?thesis by blast
qed

text \<open>
  C4. On an existing domain, when the statements of the desired access policy are a list
  of objects, the status has its ARN and \<open>json.dumps\<close> succeeds, the preparation of the
  policy returns the policy in which every statement without \<open>'Resource'\<close> has got the
  ARN of the domain followed by \<open>/*\<close>, before any comparison is made. When the current
  policy is the desired policy as the provider populates it, the policy comparison then
  finds no difference; and when the other blocks are equal too, the module reports
  \<open>changed = False\<close> and makes no write call.
\<close>

theorem missing_resource_populated_before_comparison:
  assumes "map_of (access_policies p) ''Statement'' = Some (PList (map PDict statements))"
    and "py_getitem status ''ARN'' = Inr (PStr arn)"
    and "\<forall>v. \<exists>t. json_dumps e v = Inr t"
    and "policy_equal e status (populated_policy arn (access_policies p) statements)"
  shows "(\<exists>pdoc'. normalise_policy e status (access_policies p) pdoc
            = Inr (populated_policy arn (access_policies p) statements, pdoc'))
       \<and> policy_differs e status (populated_policy arn (access_policies p) statements)
         = Inr False
       \<and> (HAS_BOTO e
          \<and> client e [] (Describe (name p)) = Returned response
          \<and> map_of response ''DomainStatus'' = Some status
          \<and> block_equal status ''ElasticsearchClusterConfig'' (cluster_config p)
          \<and> block_equal status ''EBSOptions'' (ebs_options p)
          \<and> block_equal status ''CognitoOptions'' (cognito_options p)
          \<and> vpc_equal status (vpc_options p)
          \<and> block_equal status ''SnapshotOptions'' (snapshot_options p)
          \<and> client e [Describe (name p)] (Describe (name p)) = Returned response'
          \<longrightarrow> main e p = ([Describe (name p), Describe (name p)], Exit False response'))"
proof -
  let ?policy = "populated_policy arn (access_policies p) statements"
  have normalised: "\<exists>pdoc'. normalise_policy e status (access_policies p) d = Inr (?policy, pdoc')"
    for d
    using assms(1-3) by (rule normalise_policy_populates)
  have same: "policy_differs e status ?policy = Inr False"
    using assms(4) by (rule policy_equal_differs)
  have "main e p = ([Describe (name p), Describe (name p)], Exit False response')"
    if boto: "HAS_BOTO e"
      and read: "client e [] (Describe (name p)) = Returned response"
      and status: "map_of response ''DomainStatus'' = Some status"
      and blocks: "block_equal status ''ElasticsearchClusterConfig'' (cluster_config p)"
        "block_equal status ''EBSOptions'' (ebs_options p)"
        "block_equal status ''CognitoOptions'' (cognito_options p)"
        "vpc_equal status (vpc_options p)"
        "block_equal status ''SnapshotOptions'' (snapshot_options p)"
      and again: "client e [Describe (name p)] (Describe (name p)) = Returned response'"
  proof -
    obtain d where d: "json_dumps e (PDict (access_policies p)) = Inr d"
      using assms(3) by blast
    obtain d' where d': "normalise_policy e status (access_policies p) d = Inr (?policy, d')"
      using normalised by blast
    have "detect_changes e p status ?policy = Inr False"
      using blocks assms(4) by (rule equal_blocks_no_change)
    with boto d read status d' show ?thesis
      using again by (rule unchanged_run)
  qed
  with normalised same show ?thesis by blast
qed

theorem missing_resource_populated_before_comparison_witness:
  "(\<exists>pdoc'. normalise_policy (example_env (serving (status_of example_params)))
              (PDict (status_of example_params)) (access_policies example_params)
              example_text
            = Inr (example_policy_stored, pdoc'))
   \<and> main (example_env (serving (status_of example_params))) example_params
     = ([Describe (name example_params), Describe (name example_params)],
        Exit False [(''DomainStatus'', PDict (status_of example_params))])"
proof -
  let ?e = "example_env (serving (status_of example_params))"
  let ?p = "example_params"
  let ?status = "PDict (status_of example_params)"
  let ?statement = "[(''Effect'', PStr ''Allow''), (''Principal'', PStr ''*''),
                     (''Action'', PStr ''es:*'')]"
  have policy: "populated_policy example_arn (access_policies ?p) [?statement]
                = example_policy_stored"
    by (simp add: populated_policy_def populate_def example_defs)
  have 1: "map_of (access_policies ?p) ''Statement'' = Some (PList (map PDict [?statement]))"
    by (simp add: example_defs)
  have 2: "py_getitem ?status ''ARN'' = Inr (PStr example_arn)"
    by (simp add: status_of_def)
  have 3: "\<forall>v. \<exists>t. json_dumps ?e v = Inr t"
    by (simp add: example_env_def example_dumps_def)
  have 4: "policy_equal ?e ?status
             (populated_policy example_arn (access_policies ?p) [?statement])"
    unfolding policy by (simp add: policy_equal_def example_defs)
  have rest: "HAS_BOTO ?e"
    "client ?e [] (Describe (name ?p)) = Returned [(''DomainStatus'', ?status)]"
    "map_of [(''DomainStatus'', ?status)] ''DomainStatus'' = Some ?status"
    "block_equal ?status ''ElasticsearchClusterConfig'' (cluster_config ?p)"
    "block_equal ?status ''EBSOptions'' (ebs_options ?p)"
    "block_equal ?status ''CognitoOptions'' (cognito_options ?p)"
    "vpc_equal ?status (vpc_options ?p)"
    "block_equal ?status ''SnapshotOptions'' (snapshot_options ?p)"
    "client ?e [Describe (name ?p)] (Describe (name ?p)) = Returned [(''DomainStatus'', ?status)]"
    by (simp_all add: block_equal_def vpc_equal_def field_equal_def config_defs example_defs)
  from missing_resource_populated_before_comparison [OF 1 2 3 4,
      of example_text "[(''DomainStatus'', ?status)]" "[(''DomainStatus'', ?status)]"]
  show ?thesis
    unfolding policy using rest by blast
qed




end
